theory Spec2Isabelle
  imports Main "HOL-Library.AList" "HOL-Library.Word"
begin

section \<open>Identifier normaliser\<close>

text \<open>
  \<^verbatim>\<open>ascii_normalise\<close> calls \<^verbatim>\<open>re.sub(r'[^a-zA-Z0-9\-\_\/\\\.]', '_', input_str)\<close>.
  The character class of the pattern lists the ranges a-z, A-Z, 0-9 and the escaped
  characters hyphen, underscore, slash, backslash and dot; the pattern is its complement.
  \<^verbatim>\<open>re.sub\<close> scans the string from the left and puts the replacement string in
  place of every match, here of every single character outside the class. On a string
  \<^verbatim>\<open>re.sub\<close> does not raise, so the \<^verbatim>\<open>except\<close> branch of the source is not
  reachable from a value of type \<open>string\<close>. A character is a \<open>char\<close> of HOL (a
  code below 256); every code from 128 on is outside the class, as every character
  beyond ASCII is in Python.
\<close>

definition in_range :: "char \<Rightarrow> char \<Rightarrow> char \<Rightarrow> bool" where
  "in_range lo hi c = ((of_char lo :: nat) \<le> of_char c \<and> (of_char c :: nat) \<le> of_char hi)"

definition allowed :: "char \<Rightarrow> bool" where
  "allowed c =
     (in_range CHR ''a'' CHR ''z'' c \<or> in_range CHR ''A'' CHR ''Z'' c \<or>
      in_range CHR ''0'' CHR ''9'' c \<or> c = CHR ''-'' \<or> c = CHR ''_'' \<or>
      c = CHR ''/'' \<or> c = CHR 0x5C \<or> c = CHR ''.'')"

fun re_sub_complement :: "(char \<Rightarrow> bool) \<Rightarrow> string \<Rightarrow> string \<Rightarrow> string" where
  "re_sub_complement cls repl [] = []"
| "re_sub_complement cls repl (c # cs) =
     (if cls c then [c] else repl) @ re_sub_complement cls repl cs"

definition ascii_normalise :: "string \<Rightarrow> string" where
  "ascii_normalise input_str = re_sub_complement allowed ''_'' input_str"

text \<open>
  The spec's side of the normalisation property: a string matches the regular expression
  \<^verbatim>\<open>[A-Za-z0-9_./\-]+\<close>, read with the backslash in the class as section 4.1 of
  the spec says, when it is not empty and all its characters are allowed.
\<close>

definition matches_allowed_plus :: "string \<Rightarrow> bool" where
  "matches_allowed_plus s = (s \<noteq> [] \<and> list_all allowed s)"

section \<open>Strings and paths of the Python library\<close>

text \<open>\<^verbatim>\<open>s.split(' ')\<close> cuts at every separator and keeps empty pieces.\<close>

fun split_on :: "char \<Rightarrow> string \<Rightarrow> string list" where
  "split_on sep [] = [[]]"
| "split_on sep (c # cs) =
     (if c = sep then [] # split_on sep cs
      else (case split_on sep cs of
              [] \<Rightarrow> [[c]]
            | w # ws \<Rightarrow> (c # w) # ws))"

text \<open>\<^verbatim>\<open>sep.join(xs)\<close>.\<close>

fun join_with :: "string \<Rightarrow> string list \<Rightarrow> string" where
  "join_with sep [] = []"
| "join_with sep [x] = x"
| "join_with sep (x # y # ys) = x @ sep @ join_with sep (y # ys)"

fun starts_with :: "string \<Rightarrow> string \<Rightarrow> bool" where
  "starts_with [] s = True"
| "starts_with (p # ps) [] = False"
| "starts_with (p # ps) (c # cs) = (p = c \<and> starts_with ps cs)"

text \<open>\<^verbatim>\<open>sub in s\<close> on strings: \<open>sub\<close> occurs in \<open>s\<close> as a block.\<close>

fun str_contains :: "string \<Rightarrow> string \<Rightarrow> bool" where
  "str_contains sub [] = (sub = [])"
| "str_contains sub (c # cs) = (starts_with sub (c # cs) \<or> str_contains sub cs)"

definition is_sep :: "char \<Rightarrow> bool" where
  "is_sep c = (c = CHR ''/'')"

definition not_sep :: "char \<Rightarrow> bool" where
  "not_sep c = (c \<noteq> CHR ''/'')"

definition rstrip_sep :: "string \<Rightarrow> string" where
  "rstrip_sep s = rev (dropWhile is_sep (rev s))"

text \<open>
  \<^verbatim>\<open>os.path.join(a, b)\<close> of posixpath: an absolute \<open>b\<close> replaces \<open>a\<close>; otherwise one
  separator stands between the two unless \<open>a\<close> is empty or ends with one.
\<close>

definition path_join :: "string \<Rightarrow> string \<Rightarrow> string" where
  "path_join a b =
     (if starts_with ''/'' b then b
      else if a = [] then a @ b
      else if last a = CHR ''/'' then a @ b
      else a @ ''/'' @ b)"

text \<open>
  \<^verbatim>\<open>os.path.split(p)\<close>: the tail is what follows the last separator; the head is
  the rest, with its trailing separators removed unless it consists of separators only.
\<close>

definition path_split :: "string \<Rightarrow> string \<times> string" where
  "path_split p =
     (let tail = rev (takeWhile not_sep (rev p));
          head = rev (dropWhile not_sep (rev p))
      in (if head \<noteq> [] \<and> \<not> list_all is_sep head then rstrip_sep head else head, tail))"

text \<open>
  \<^verbatim>\<open>os.path.splitext(p)\<close>: the extension starts at the last dot of the last path
  component, provided a character other than a dot stands before it in that component.
\<close>

definition path_splitext :: "string \<Rightarrow> string \<times> string" where
  "path_splitext p =
     (let base = rev (takeWhile not_sep (rev p));
          after_dot = rev (takeWhile (\<lambda>c. c \<noteq> CHR ''.'') (rev base));
          stem = take (length base - length after_dot - 1) base
      in if CHR ''.'' \<in> set base \<and> list_ex (\<lambda>c. c \<noteq> CHR ''.'') stem
         then (take (length p - length after_dot - 1) p, CHR ''.'' # after_dot)
         else (p, []))"

section \<open>The OPML feed extractor\<close>

text \<open>
  The document as \<^verbatim>\<open>xml.etree.ElementTree\<close> hands it over: every element has a tag,
  a dictionary of attributes and its child elements in document order. A document that is
  not well-formed never becomes a tree (\<^verbatim>\<open>ET.parse\<close> raises and the run ends).
\<close>

datatype element = Element (tag: string) (attrib: "(string \<times> string) list") (children: "element list")

text \<open>
  \<^verbatim>\<open>findall("*/outline/*[@type='rss']")\<close> runs four selectors one after the other
  over the stream that starts with the root: all children, the children with tag
  \<^verbatim>\<open>outline\<close>, all children, and those whose attribute \<^verbatim>\<open>type\<close> is \<^verbatim>\<open>rss\<close>.
\<close>

definition select_star :: "element list \<Rightarrow> element list" where
  "select_star result = concat (map children result)"

definition select_child :: "string \<Rightarrow> element list \<Rightarrow> element list" where
  "select_child t result = concat (map (\<lambda>elem. filter (\<lambda>e. tag e = t) (children elem)) result)"

definition select_attribute :: "string \<Rightarrow> string \<Rightarrow> element list \<Rightarrow> element list" where
  "select_attribute k v result = filter (\<lambda>elem. map_of (attrib elem) k = Some v) result"

definition findall_rss :: "element \<Rightarrow> element list" where
  "findall_rss xml_root =
     select_attribute ''type'' ''rss''
       (select_star (select_child ''outline'' (select_star [xml_root])))"

text \<open>
  \<^verbatim>\<open>parse_opml\<close> appends to \<^verbatim>\<open>self.feeds\<close>; the list is passed in and returned.
\<close>

fun append_feed_urls :: "(string \<times> string) list list \<Rightarrow> string list \<Rightarrow> string list" where
  "append_feed_urls [] feeds = feeds"
| "append_feed_urls (feed # rest) feeds =
     (case map_of feed ''xmlUrl'' of
        None \<Rightarrow> append_feed_urls rest feeds
      | Some feed_url \<Rightarrow>
          if feed_url \<noteq> [] then append_feed_urls rest (feeds @ [feed_url])
          else append_feed_urls rest feeds)"

definition parse_opml :: "element \<Rightarrow> string list \<Rightarrow> string list" where
  "parse_opml xml_root feeds = append_feed_urls (map attrib (findall_rss xml_root)) feeds"

section \<open>Values, parsed feeds, the network and the file system\<close>

text \<open>
  \<^verbatim>\<open>time.struct_time\<close>, as far as its fields tell two dates apart.
\<close>

record struct_time =
  tm_year :: nat
  tm_mon :: nat
  tm_mday :: nat
  tm_hour :: nat
  tm_min :: nat
  tm_sec :: nat

text \<open>
  The exceptions that can end a call. \<^verbatim>\<open>KeyError\<close> is what a subscript on a
  missing key raises, \<^verbatim>\<open>ValueError\<close> what \<^verbatim>\<open>time.strftime\<close> raises,
  \<^verbatim>\<open>RequestException\<close> stands for what \<^verbatim>\<open>requests.get\<close> raises.
\<close>

datatype error =
  AttributeError
| KeyError
| ValueError
| UnboundLocalError
| RequestException
| FileNotFoundError
| FileExistsError
| NotADirectoryError
| IsADirectoryError

text \<open>
  An entry of \<^verbatim>\<open>links\<close>: a dictionary in which the keys \<^verbatim>\<open>type\<close> and
  \<^verbatim>\<open>href\<close> may be missing (an enclosure element without a type attribute has no
  \<^verbatim>\<open>type\<close>). The source reads them with \<^verbatim>\<open>link['type']\<close> and
  \<^verbatim>\<open>link['href']\<close>, which raise \<^verbatim>\<open>KeyError\<close> on a missing key.
\<close>

record link =
  link_type :: "string option"
  link_href :: "string option"

text \<open>
  The image of a feed: a dictionary with an optional \<^verbatim>\<open>href\<close> and its other keys.
  It counts as false when it is empty.
\<close>

record image =
  image_href :: "string option"
  image_rest :: "(string \<times> string) list"

text \<open>
  The values the two metadata dictionaries hold. A dictionary is an association list in
  insertion order, which is the order \<^verbatim>\<open>json.dumps\<close> writes the keys in.
\<close>

datatype pyval =
  PNone
| PStr string
| PInt int
| PTime struct_time
| PLinks "link list"
| PImage image
| PPairs "(string option \<times> string option) list"

type_synonym dict = "(string \<times> pyval) list"

definition dict_get :: "dict \<Rightarrow> string \<Rightarrow> pyval" where
  "dict_get d k = (case map_of d k of None \<Rightarrow> PNone | Some v \<Rightarrow> v)"

definition dict_set :: "dict \<Rightarrow> string \<Rightarrow> pyval \<Rightarrow> dict" where
  "dict_set d k v = AList.update k v d"

definition dict_pop :: "dict \<Rightarrow> string \<Rightarrow> dict" where
  "dict_pop d k = AList.delete k d"

fun truthy :: "pyval \<Rightarrow> bool" where
  "truthy PNone = False"
| "truthy (PStr s) = (s \<noteq> [])"
| "truthy (PInt n) = (n \<noteq> 0)"
| "truthy (PTime t) = True"
| "truthy (PLinks ls) = (ls \<noteq> [])"
| "truthy (PImage img) = (\<not> (image_href img = None \<and> image_rest img = []))"
| "truthy (PPairs xs) = (xs \<noteq> [])"

definition opt_str :: "string option \<Rightarrow> pyval" where
  "opt_str x = (case x of None \<Rightarrow> PNone | Some s \<Rightarrow> PStr s)"

text \<open>
  What \<^verbatim>\<open>feedparser.parse\<close> returns, as far as the source reads it. A field that the
  feed does not have is \<open>None\<close>: \<^verbatim>\<open>get(field, None)\<close> gives \<^verbatim>\<open>None\<close> for it and
  attribute access raises \<^verbatim>\<open>AttributeError\<close>.
\<close>

record entry =
  entry_title :: "string option"
  entry_link :: "string option"
  entry_description :: "string option"
  entry_published_parsed :: "struct_time option"
  entry_links :: "link list option"

record feed_header =
  feed_title :: "string option"
  feed_link :: "string option"
  feed_description :: "string option"
  feed_published :: "string option"
  feed_image :: "image option"
  feed_categories :: "(string option \<times> string option) list option"

record parsed_feed =
  bozo :: bool
  feed :: feed_header
  entries :: "entry list"

text \<open>
  \<^verbatim>\<open>requests.get\<close> either raises (no connection, time-out, a URL it cannot use) or
  returns a response with a status code and a body.
\<close>

datatype http_result = Request_failed | Response nat "8 word list"

text \<open>
  What the libraries answer during one run: \<^verbatim>\<open>feedparser.parse\<close> for a feed URL,
  \<^verbatim>\<open>requests.get\<close> for a URL, and \<^verbatim>\<open>time.strftime\<close> for a format and a
  time, which returns the formatted string or raises. The format is the user's, so
  nothing is assumed about what a format expands to.
\<close>

record world =
  feedparser_parse :: "string \<Rightarrow> parsed_feed"
  requests_get :: "string \<Rightarrow> http_result"
  time_strftime :: "string \<Rightarrow> struct_time \<Rightarrow> error + string"

record config =
  dest :: string
  time_format :: string

text \<open>
  The file system is a store keyed by the path strings the program computes. A directory
  is kept under its name without trailing separators, so that \<^verbatim>\<open>dest/Rock/\<close> and
  \<^verbatim>\<open>dest/Rock\<close> are one directory; apart from that, paths are compared as strings.
  A file written with \<^verbatim>\<open>json.dumps\<close> holds the dictionary, a file written in binary
  mode holds bytes. \<open>requests\<close> lists the URLs that \<^verbatim>\<open>requests.get\<close> was called
  on, in order.
\<close>

datatype content = Json_text dict | Bytes "8 word list"

record state =
  files :: "(string \<times> content) list"
  dirs :: "string list"
  requests :: "string list"

text \<open>
  A call either returns with the new state or raises with the state at the raise; none
  of the exceptions is caught anywhere in the source but inside \<^verbatim>\<open>os.makedirs\<close>,
  so a raise ends the run.
\<close>

type_synonym result = "(error \<times> state) + state"

definition dir_key :: "string \<Rightarrow> string" where
  "dir_key p = (if list_all is_sep p then p else rstrip_sep p)"

definition os_path_isdir :: "state \<Rightarrow> string \<Rightarrow> bool" where
  "os_path_isdir st p = (dir_key p \<in> set (dirs st))"

definition os_path_isfile :: "state \<Rightarrow> string \<Rightarrow> bool" where
  "os_path_isfile st p = (map_of (files st) p \<noteq> None)"

definition os_path_exists :: "state \<Rightarrow> string \<Rightarrow> bool" where
  "os_path_exists st p = (os_path_isdir st p \<or> os_path_isfile st p)"

text \<open>
  The directory a new name is created in: the head of \<^verbatim>\<open>os.path.split\<close>, taken
  once more when the name ends with a separator. The current directory (an empty head)
  and the root are always there.
\<close>

definition parent_dir :: "string \<Rightarrow> string" where
  "parent_dir name =
     (if snd (path_split name) = [] then fst (path_split (fst (path_split name)))
      else fst (path_split name))"

definition mkdir_error :: "state \<Rightarrow> string \<Rightarrow> error option" where
  "mkdir_error st name =
     (if os_path_isdir st name then Some FileExistsError
      else if os_path_isfile st (dir_key name) then Some FileExistsError
      else if list_all is_sep (parent_dir name) then None
      else if os_path_isfile st (parent_dir name) then Some NotADirectoryError
      else if os_path_isdir st (parent_dir name) then None
      else Some FileNotFoundError)"

definition mkdir :: "string \<Rightarrow> state \<Rightarrow> result" where
  "mkdir name st =
     (case mkdir_error st name of
        Some e \<Rightarrow> Inl (e, st)
      | None \<Rightarrow> Inr (st\<lparr>dirs := dirs st @ [dir_key name]\<rparr>))"

text \<open>
  \<^verbatim>\<open>os.makedirs(name)\<close>: when the parent is missing it is made first (a
  \<^verbatim>\<open>FileExistsError\<close> of that call is ignored), then the leaf with \<^verbatim>\<open>mkdir\<close>.
\<close>

lemma path_split_length:
  "length (fst (path_split p)) + length (snd (path_split p)) \<le> length p"
proof -
  have "length (dropWhile not_sep (rev p)) + length (takeWhile not_sep (rev p))
      = length (takeWhile not_sep (rev p) @ dropWhile not_sep (rev p))"
    by (simp only: length_append add.commute)
  also have "\<dots> = length p"
    by (simp only: takeWhile_dropWhile_id length_rev)
  finally have a:
    "length (dropWhile not_sep (rev p)) + length (takeWhile not_sep (rev p)) = length p" .
  have b: "length (rstrip_sep h) \<le> length h" for h
    using length_dropWhile_le [of is_sep "rev h"] by (simp add: rstrip_sep_def)
  show ?thesis
    using a b [of "rev (dropWhile not_sep (rev p))"]
    by (simp add: path_split_def Let_def)
qed

function makedirs :: "string \<Rightarrow> state \<Rightarrow> result" where
  "makedirs name st =
     (if snd (path_split name) \<noteq> [] \<and> fst (path_split name) \<noteq> []
         \<and> \<not> os_path_exists st (fst (path_split name))
      then (case makedirs (fst (path_split name)) st of
              Inl (e, st') \<Rightarrow>
                if e = FileExistsError
                then (if snd (path_split name) = ''.'' then Inr st' else mkdir name st')
                else Inl (e, st')
            | Inr st' \<Rightarrow> if snd (path_split name) = ''.'' then Inr st' else mkdir name st')
      else if snd (path_split name) = []
         \<and> snd (path_split (fst (path_split name))) \<noteq> []
         \<and> fst (path_split (fst (path_split name))) \<noteq> []
         \<and> \<not> os_path_exists st (fst (path_split (fst (path_split name))))
      then (case makedirs (fst (path_split (fst (path_split name)))) st of
              Inl (e, st') \<Rightarrow>
                if e = FileExistsError
                then (if snd (path_split (fst (path_split name))) = ''.'' then Inr st'
                      else mkdir name st')
                else Inl (e, st')
            | Inr st' \<Rightarrow>
                if snd (path_split (fst (path_split name))) = ''.'' then Inr st'
                else mkdir name st')
      else mkdir name st)"
  by pat_completeness auto
termination
proof (relation "measure (\<lambda>(name, st). length name)")
  show "wf (measure (\<lambda>(name, st). length name))" by simp
next
  fix name :: string and st :: state
  assume "snd (path_split name) \<noteq> [] \<and> fst (path_split name) \<noteq> []
    \<and> \<not> os_path_exists st (fst (path_split name))"
  then have "0 < length (snd (path_split name))" by simp
  with path_split_length [of name] have "length (fst (path_split name)) < length name"
    by linarith
  then show "((fst (path_split name), st), (name, st)) \<in> measure (\<lambda>(name, st). length name)"
    by simp
next
  fix name :: string and st :: state
  assume "snd (path_split name) = []
    \<and> snd (path_split (fst (path_split name))) \<noteq> []
    \<and> fst (path_split (fst (path_split name))) \<noteq> []
    \<and> \<not> os_path_exists st (fst (path_split (fst (path_split name))))"
  then have "0 < length (snd (path_split (fst (path_split name))))" by simp
  with path_split_length [of name] path_split_length [of "fst (path_split name)"]
  have "length (fst (path_split (fst (path_split name)))) < length name"
    by linarith
  then show "((fst (path_split (fst (path_split name))), st), (name, st))
      \<in> measure (\<lambda>(name, st). length name)"
    by simp
qed

declare makedirs.simps [simp del]

text \<open>
  \<^verbatim>\<open>open(path, 'w')\<close> and \<^verbatim>\<open>open(path, 'wb')\<close> create the file or empty it; they
  raise when the path is a directory or the directory of the path is missing.
\<close>

definition open_error :: "state \<Rightarrow> string \<Rightarrow> error option" where
  "open_error st path =
     (if os_path_isdir st path then Some IsADirectoryError
      else if snd (path_split path) = [] then Some IsADirectoryError
      else if list_all is_sep (fst (path_split path)) then None
      else if os_path_isfile st (fst (path_split path)) then Some NotADirectoryError
      else if os_path_isdir st (fst (path_split path)) then None
      else Some FileNotFoundError)"

definition open_write :: "string \<Rightarrow> content \<Rightarrow> state \<Rightarrow> result" where
  "open_write path c st =
     (case open_error st path of
        Some e \<Rightarrow> Inl (e, st)
      | None \<Rightarrow> Inr (st\<lparr>files := AList.update path c (files st)\<rparr>))"

text \<open>\<^verbatim>\<open>f.write(chunk)\<close> on an open binary file adds the chunk at its end.\<close>

definition write_chunk :: "string \<Rightarrow> state \<Rightarrow> 8 word list \<Rightarrow> state" where
  "write_chunk path st chunk =
     (case map_of (files st) path of
        Some (Bytes b) \<Rightarrow> st\<lparr>files := AList.update path (Bytes (b @ chunk)) (files st)\<rparr>
      | _ \<Rightarrow> st)"

text \<open>\<^verbatim>\<open>response.iter_content(chunk_size)\<close>: the body in pieces of that size.\<close>

function iter_content :: "nat \<Rightarrow> 8 word list \<Rightarrow> 8 word list list" where
  "iter_content chunk_size body =
     (if body = [] then []
      else if chunk_size = 0 then [body]
      else take chunk_size body # iter_content chunk_size (drop chunk_size body))"
  by pat_completeness auto
termination
  by (relation "measure (\<lambda>(chunk_size, body). length body)") auto

declare iter_content.simps [simp del]

text \<open>
  The two download blocks of the source (cover image and episode audio) do the same
  after \<^verbatim>\<open>requests.get\<close>: \<^verbatim>\<open>raise_for_status\<close> raises \<^verbatim>\<open>HTTPError\<close> for a status
  from 400 to 599, which the source catches and returns from; otherwise the body is
  written to the file in chunks of 128 bytes.
\<close>

definition save_response :: "http_result \<Rightarrow> string \<Rightarrow> state \<Rightarrow> result" where
  "save_response r filename st =
     (case r of
        Request_failed \<Rightarrow> Inl (RequestException, st)
      | Response status_code body \<Rightarrow>
          if 400 \<le> status_code \<and> status_code < 600 then Inr st
          else (case open_write filename (Bytes []) st of
                  Inl x \<Rightarrow> Inl x
                | Inr st' \<Rightarrow> Inr (foldl (write_chunk filename) st' (iter_content 128 body))))"

definition get_feed_image :: "world \<Rightarrow> string \<Rightarrow> string \<Rightarrow> state \<Rightarrow> result" where
  "get_feed_image w image_url directory st =
     (let img = requests_get w image_url;
          st1 = st\<lparr>requests := requests st @ [image_url]\<rparr>;
          image_filename_ext = snd (path_splitext image_url);
          image_filename =
            ascii_normalise
              (path_join directory (snd (path_split directory) @ image_filename_ext))
      in save_response img image_filename st1)"

section \<open>Feed and episode metadata\<close>

definition FEED_FIELDS :: "string list" where
  "FEED_FIELDS = [''title'', ''link'', ''description'', ''published'', ''image'', ''categories'']"

definition EPISODE_FIELDS :: "string list" where
  "EPISODE_FIELDS = [''title'', ''link'', ''description'', ''published_parsed'', ''links'']"

text \<open>\<^verbatim>\<open>episode.get(field, None)\<close>.\<close>

definition entry_get :: "entry \<Rightarrow> string \<Rightarrow> pyval" where
  "entry_get episode field =
     (if field = ''title'' then opt_str (entry_title episode)
      else if field = ''link'' then opt_str (entry_link episode)
      else if field = ''description'' then opt_str (entry_description episode)
      else if field = ''published_parsed''
      then (case entry_published_parsed episode of None \<Rightarrow> PNone | Some t \<Rightarrow> PTime t)
      else if field = ''links''
      then (case entry_links episode of None \<Rightarrow> PNone | Some ls \<Rightarrow> PLinks ls)
      else PNone)"

fun copy_fields :: "(string \<Rightarrow> pyval) \<Rightarrow> string list \<Rightarrow> dict \<Rightarrow> dict" where
  "copy_fields get [] d = d"
| "copy_fields get (field # rest) d = copy_fields get rest (dict_set d field (get field))"

text \<open>
  The loop over \<^verbatim>\<open>links\<close>: the first link whose type contains \<^verbatim>\<open>audio\<close> sets
  \<^verbatim>\<open>link\<close> and ends the loop. A link without \<^verbatim>\<open>type\<close> that the loop
  reaches, or an audio link without \<^verbatim>\<open>href\<close>, raises \<^verbatim>\<open>KeyError\<close>.
\<close>

fun scan_links :: "link list \<Rightarrow> dict \<Rightarrow> error + dict" where
  "scan_links [] d = Inr d"
| "scan_links (l # ls) d =
     (case link_type l of
        None \<Rightarrow> Inl KeyError
      | Some t \<Rightarrow>
          if str_contains ''audio'' t
          then (case link_href l of
                  None \<Rightarrow> Inl KeyError
                | Some href \<Rightarrow> Inr (dict_set d ''link'' (PStr href)))
          else scan_links ls d)"

text \<open>
  Lines 236 to 253 of \<^verbatim>\<open>process_feed_episode\<close>: the dictionary
  \<^verbatim>\<open>episode_metadata\<close> before the file names are computed. \<^verbatim>\<open>published_parsed\<close>
  is formatted when it is there; \<^verbatim>\<open>links\<close> is scanned and removed when it is a
  non-empty list, and stays in the dictionary otherwise. Both steps can raise, and
  nothing has been written or requested when they do.
\<close>

definition format_published_parsed :: "config \<Rightarrow> world \<Rightarrow> dict \<Rightarrow> error + dict" where
  "format_published_parsed cfg w m =
     (case dict_get m ''published_parsed'' of
        PTime t \<Rightarrow>
          (case time_strftime w (time_format cfg) t of
             Inl e \<Rightarrow> Inl e
           | Inr s \<Rightarrow> Inr (dict_set m ''published_parsed'' (PStr s)))
      | _ \<Rightarrow> Inr m)"

definition resolve_links :: "dict \<Rightarrow> error + dict" where
  "resolve_links m =
     (case dict_get m ''links'' of
        PLinks ls \<Rightarrow>
          if ls \<noteq> []
          then (case scan_links ls m of
                  Inl e \<Rightarrow> Inl e
                | Inr m' \<Rightarrow> Inr (dict_pop m' ''links''))
          else Inr m
      | _ \<Rightarrow> Inr m)"

definition project_episode :: "config \<Rightarrow> world \<Rightarrow> entry \<Rightarrow> error + dict" where
  "project_episode cfg w episode =
     (case format_published_parsed cfg w (copy_fields (entry_get episode) EPISODE_FIELDS []) of
        Inl e \<Rightarrow> Inl e
      | Inr m \<Rightarrow> resolve_links m)"

text \<open>
  \<^verbatim>\<open>f'{episode_metadata["published_parsed"]}'\<close>: at that point the value is the
  formatted string or \<^verbatim>\<open>None\<close>, which an f-string prints as \<^verbatim>\<open>None\<close>.
\<close>

definition format_published :: "pyval \<Rightarrow> string" where
  "format_published v = (case v of PStr s \<Rightarrow> s | _ \<Rightarrow> ''None'')"

definition episode_title_of :: "string \<Rightarrow> string" where
  "episode_title_of title = join_with ''_'' (split_on CHR '' '' title)"

definition episode_filename :: "string \<Rightarrow> dict \<Rightarrow> string \<Rightarrow> string \<Rightarrow> string" where
  "episode_filename directory episode_metadata episode_title ext =
     ascii_normalise
       (path_join (path_join directory ''episodes'')
          (format_published (dict_get episode_metadata ''published_parsed'') @ ''_''
             @ episode_title @ ext))"

text \<open>
  \<^verbatim>\<open>process_feed_episode\<close>. \<^verbatim>\<open>episode_metadata['title'].split\<close> raises
  \<^verbatim>\<open>AttributeError\<close> when the title is \<^verbatim>\<open>None\<close>. The variable \<^verbatim>\<open>audio\<close> is
  assigned only under \<^verbatim>\<open>if episode_metadata['link']\<close>, and
  \<^verbatim>\<open>audio.raise_for_status()\<close> follows outside that test: with a link that is
  \<^verbatim>\<open>None\<close> or empty the name is unbound there and Python raises
  \<^verbatim>\<open>UnboundLocalError\<close>, which \<^verbatim>\<open>except requests.exceptions.HTTPError\<close> does not
  catch.
\<close>

definition process_feed_episode :: "config \<Rightarrow> world \<Rightarrow> entry \<Rightarrow> string \<Rightarrow> state \<Rightarrow> result" where
  "process_feed_episode cfg w episode directory st =
     (case project_episode cfg w episode of
        Inl e \<Rightarrow> Inl (e, st)
      | Inr episode_metadata \<Rightarrow>
          (case dict_get episode_metadata ''title'' of
             PStr title \<Rightarrow>
               (let episode_title = episode_title_of title;
                    episode_meta_filename =
                      episode_filename directory episode_metadata episode_title ''.json'';
                    episode_audio_filename =
                      episode_filename directory episode_metadata episode_title ''.mp3''
                in if os_path_exists st episode_meta_filename
                      \<and> os_path_exists st episode_audio_filename
                   then Inr st
                   else (case open_write episode_meta_filename (Json_text episode_metadata) st of
                           Inl x \<Rightarrow> Inl x
                         | Inr st1 \<Rightarrow>
                             (case dict_get episode_metadata ''link'' of
                                PStr url \<Rightarrow>
                                  if url \<noteq> []
                                  then save_response (requests_get w url) episode_audio_filename
                                         (st1\<lparr>requests := requests st1 @ [url]\<rparr>)
                                  else Inl (UnboundLocalError, st1)
                              | _ \<Rightarrow> Inl (UnboundLocalError, st1))))
           | _ \<Rightarrow> Inl (AttributeError, st)))"

fun process_episodes :: "config \<Rightarrow> world \<Rightarrow> entry list \<Rightarrow> string \<Rightarrow> state \<Rightarrow> result" where
  "process_episodes cfg w [] directory st = Inr st"
| "process_episodes cfg w (episode # rest) directory st =
     (case process_feed_episode cfg w episode directory st of
        Inl x \<Rightarrow> Inl x
      | Inr st' \<Rightarrow> process_episodes cfg w rest directory st')"

text \<open>
  \<^verbatim>\<open>process_feed_metadata\<close>. For the field \<^verbatim>\<open>image\<close> of a feed whose image
  counts as true the value is \<^verbatim>\<open>content.feed.image.href\<close>, an
  \<^verbatim>\<open>AttributeError\<close> when the image has no href; every other value is
  \<^verbatim>\<open>content.feed.get(field, None)\<close>. The categories are the pairs of scheme and term
  that the parser derives from the tags. The number of
  entries is added as \<^verbatim>\<open>episode_count\<close>, and the dictionary is written to
  \<^verbatim>\<open>ascii_normalise(join(directory, split(directory)[1] + '.json'))\<close>.
\<close>

definition feed_get :: "feed_header \<Rightarrow> string \<Rightarrow> pyval" where
  "feed_get f field =
     (if field = ''title'' then opt_str (feed_title f)
      else if field = ''link'' then opt_str (feed_link f)
      else if field = ''description'' then opt_str (feed_description f)
      else if field = ''published'' then opt_str (feed_published f)
      else if field = ''image''
      then (case feed_image f of None \<Rightarrow> PNone | Some img \<Rightarrow> PImage img)
      else if field = ''categories''
      then (case feed_categories f of None \<Rightarrow> PNone | Some cs \<Rightarrow> PPairs cs)
      else PNone)"

definition feed_field_value :: "feed_header \<Rightarrow> string \<Rightarrow> error + pyval" where
  "feed_field_value f field =
     (if field = ''image'' \<and> truthy (feed_get f ''image'')
      then (case feed_image f of
              None \<Rightarrow> Inl AttributeError
            | Some img \<Rightarrow>
                (case image_href img of
                   None \<Rightarrow> Inl AttributeError
                 | Some href \<Rightarrow> Inr (PStr href)))
      else Inr (feed_get f field))"

fun feed_fields :: "feed_header \<Rightarrow> string list \<Rightarrow> dict \<Rightarrow> error + dict" where
  "feed_fields f [] d = Inr d"
| "feed_fields f (field # rest) d =
     (case feed_field_value f field of
        Inl e \<Rightarrow> Inl e
      | Inr v \<Rightarrow> feed_fields f rest (dict_set d field v))"

definition process_feed_metadata :: "parsed_feed \<Rightarrow> string \<Rightarrow> state \<Rightarrow> (error \<times> state) + (dict \<times> state)" where
  "process_feed_metadata content directory st =
     (case feed_fields (feed content) FEED_FIELDS [] of
        Inl e \<Rightarrow> Inl (e, st)
      | Inr d \<Rightarrow>
          (let feed_metadata = dict_set d ''episode_count'' (PInt (int (length (entries content))));
               metadata_filename =
                 ascii_normalise
                   (path_join directory (snd (path_split directory) @ ''.json''))
           in case open_write metadata_filename (Json_text feed_metadata) st of
                Inl x \<Rightarrow> Inl x
              | Inr st' \<Rightarrow> Inr (feed_metadata, st')))"

section \<open>The run\<close>

definition ensure_dir :: "string \<Rightarrow> state \<Rightarrow> result" where
  "ensure_dir directory st =
     (if os_path_isdir st directory then Inr st else makedirs directory st)"

text \<open>
  One round of the loop of \<^verbatim>\<open>get_feeds\<close>. A feed that \<^verbatim>\<open>feedparser\<close> reports as
  \<^verbatim>\<open>bozo\<close> is left with \<^verbatim>\<open>continue\<close> before anything else is done for it.
\<close>

definition process_feed :: "config \<Rightarrow> world \<Rightarrow> string \<Rightarrow> state \<Rightarrow> result" where
  "process_feed cfg w feed_url st =
     (let content = feedparser_parse w feed_url
      in if bozo content then Inr st
         else (case feed_title (feed content) of
                 None \<Rightarrow> Inl (AttributeError, st)
               | Some title \<Rightarrow>
                   (let feed_dir_name =
                          ascii_normalise (join_with ''_'' (split_on CHR '' '' title));
                        directory = path_join (dest cfg) feed_dir_name
                    in case ensure_dir directory st of
                         Inl x \<Rightarrow> Inl x
                       | Inr st1 \<Rightarrow>
                           (case ensure_dir (path_join directory ''episodes'') st1 of
                              Inl x \<Rightarrow> Inl x
                            | Inr st2 \<Rightarrow>
                                (case process_feed_metadata content directory st2 of
                                   Inl x \<Rightarrow> Inl x
                                 | Inr (feed_metadata, st3) \<Rightarrow>
                                     (case (case dict_get feed_metadata ''image'' of
                                              PStr image_url \<Rightarrow>
                                                if image_url \<noteq> []
                                                then get_feed_image w image_url directory st3
                                                else Inr st3
                                            | _ \<Rightarrow> Inr st3) of
                                        Inl x \<Rightarrow> Inl x
                                      | Inr st4 \<Rightarrow>
                                          process_episodes cfg w (entries content)
                                            directory st4))))))"

fun get_feeds :: "config \<Rightarrow> world \<Rightarrow> string list \<Rightarrow> state \<Rightarrow> result" where
  "get_feeds cfg w [] st = Inr st"
| "get_feeds cfg w (feed_url # feeds) st =
     (case process_feed cfg w feed_url st of
        Inl x \<Rightarrow> Inl x
      | Inr st' \<Rightarrow> get_feeds cfg w feeds st')"

text \<open>
  \<^verbatim>\<open>entry()\<close>: the feed list starts empty, \<^verbatim>\<open>parse_opml\<close> fills it and
  \<^verbatim>\<open>get_feeds\<close> runs over it.
\<close>

definition run :: "config \<Rightarrow> world \<Rightarrow> element \<Rightarrow> state \<Rightarrow> result" where
  "run cfg w opml st = get_feeds cfg w (parse_opml opml []) st"

section \<open>Reading a result, and the scenarios the properties are tried on\<close>

definition result_state :: "result \<Rightarrow> state" where
  "result_state r = (case r of Inl (e, st) \<Rightarrow> st | Inr st \<Rightarrow> st)"

definition written_keys :: "state \<Rightarrow> string \<Rightarrow> string list option" where
  "written_keys st path =
     (case map_of (files st) path of
        Some (Json_text d) \<Rightarrow> Some (map fst d)
      | _ \<Rightarrow> None)"

text \<open>
  For the statements about link resolution: a link whose type marker contains
  \<^verbatim>\<open>audio\<close>; links in the shape of section 4.3 of the spec, each with a type
  marker and an href; and an entry whose publication time, if it has one, is formatted
  by \<^verbatim>\<open>time.strftime\<close> without a raise.
\<close>

definition audio_link :: "link \<Rightarrow> bool" where
  "audio_link l = (case link_type l of None \<Rightarrow> False | Some t \<Rightarrow> str_contains ''audio'' t)"

definition typed_link :: "link \<Rightarrow> bool" where
  "typed_link l = (case link_type l of
                     None \<Rightarrow> False
                   | Some t \<Rightarrow> (case link_href l of None \<Rightarrow> False | Some h \<Rightarrow> True))"

definition published_formats :: "config \<Rightarrow> world \<Rightarrow> entry \<Rightarrow> bool" where
  "published_formats cfg w e =
     (case entry_published_parsed e of
        None \<Rightarrow> True
      | Some t \<Rightarrow> (case time_strftime w (time_format cfg) t of Inl err \<Rightarrow> False | Inr s \<Rightarrow> True))"

text \<open>
  The end-to-end scenario of the spec: the feed \<^verbatim>\<open>My Show\<close> at
  \<^verbatim>\<open>http://example/feed.xml\<close> with the one episode \<^verbatim>\<open>Ep 1\<close> of 2024-01-02, whose
  audio enclosure is served with three bytes; every other feed URL is reported as
  malformed and every other download fails. \<^verbatim>\<open>time.strftime\<close> is called with the
  format \<^verbatim>\<open>%Y-%m-%d\<close> and that date only, and answers \<^verbatim>\<open>2024-01-02\<close>. The OPML document holds the one
  \<^verbatim>\<open>outline\<close> of the feed, once directly in \<^verbatim>\<open>body\<close> and once inside a group.
\<close>

definition example_config :: config where
  "example_config = \<lparr>dest = ''dest'', time_format = ''%Y-%m-%d''\<rparr>"

definition second_of_january :: struct_time where
  "second_of_january =
     \<lparr>tm_year = 2024, tm_mon = 1, tm_mday = 2, tm_hour = 0, tm_min = 0, tm_sec = 0\<rparr>"

definition strftime_table :: "string \<Rightarrow> struct_time \<Rightarrow> error + string" where
  "strftime_table fmt t =
     (if fmt = ''%Y-%m-%d'' \<and> tm_year t = 2024 \<and> tm_mon t = 1 \<and> tm_mday t = 2
      then Inr ''2024-01-02''
      else Inl ValueError)"

definition ep1 :: entry where
  "ep1 =
     \<lparr>entry_title = Some ''Ep 1'', entry_link = None, entry_description = None,
      entry_published_parsed = Some second_of_january,
      entry_links =
        Some [\<lparr>link_type = Some ''audio/mpeg'', link_href = Some ''http://example/ep1.mp3''\<rparr>]\<rparr>"

definition my_show_header :: feed_header where
  "my_show_header =
     \<lparr>feed_title = Some ''My Show'', feed_link = None, feed_description = None,
      feed_published = None, feed_image = None, feed_categories = None\<rparr>"

definition my_show :: parsed_feed where
  "my_show = \<lparr>bozo = False, feed = my_show_header, entries = [ep1]\<rparr>"

definition malformed_feed :: parsed_feed where
  "malformed_feed =
     \<lparr>bozo = True,
      feed = \<lparr>feed_title = None, feed_link = None, feed_description = None,
              feed_published = None, feed_image = None, feed_categories = None\<rparr>,
      entries = []\<rparr>"

definition example_world :: world where
  "example_world =
     \<lparr>feedparser_parse =
        (\<lambda>u. if u = ''http://example/feed.xml'' then my_show else malformed_feed),
      requests_get =
        (\<lambda>u. if u = ''http://example/ep1.mp3'' then Response 200 [1, 2, 3]
             else Request_failed),
      time_strftime = strftime_table\<rparr>"

definition feed_outline :: element where
  "feed_outline =
     Element ''outline'' [(''type'', ''rss''), (''xmlUrl'', ''http://example/feed.xml'')] []"

definition flat_opml :: element where
  "flat_opml =
     Element ''opml'' [(''version'', ''2.0'')]
       [Element ''head'' [] [], Element ''body'' [] [feed_outline]]"

definition grouped_opml :: element where
  "grouped_opml =
     Element ''opml'' [(''version'', ''2.0'')]
       [Element ''head'' [] [],
        Element ''body'' [] [Element ''outline'' [(''text'', ''feeds'')] [feed_outline]]]"

definition empty_dest :: state where
  "empty_dest = \<lparr>files = [], dirs = [''dest''], requests = []\<rparr>"

text \<open>The directories of the feed are there, and no file yet.\<close>

definition feed_dirs_only :: state where
  "feed_dirs_only =
     \<lparr>files = [], dirs = [''dest'', ''dest/My_Show'', ''dest/My_Show/episodes''],
      requests = []\<rparr>"

text \<open>An episode with neither an entry-level link nor an enclosure.\<close>

definition ep_without_link :: entry where
  "ep_without_link =
     \<lparr>entry_title = Some ''Ep 2'', entry_link = None, entry_description = None,
      entry_published_parsed = Some second_of_january, entry_links = None\<rparr>"

text \<open>
  The episode \<^verbatim>\<open>Ep 1\<close> as a feed delivers it whose enclosure element has no type
  attribute: the link has an \<^verbatim>\<open>href\<close> and no \<^verbatim>\<open>type\<close>.
\<close>

definition ep1_untyped :: entry where
  "ep1_untyped =
     \<lparr>entry_title = Some ''Ep 1'', entry_link = Some ''http://example/page.html'',
      entry_description = None, entry_published_parsed = Some second_of_january,
      entry_links = Some [\<lparr>link_type = None, link_href = Some ''http://example/ep1.mp3''\<rparr>]\<rparr>"

text \<open>The entry of the spec's link resolution example.\<close>

definition ep_two_enclosures :: entry where
  "ep_two_enclosures =
     \<lparr>entry_title = Some ''Ep 3'', entry_link = Some ''http://example/page.html'',
      entry_description = None, entry_published_parsed = Some second_of_january,
      entry_links =
        Some [\<lparr>link_type = Some ''image/png'', link_href = Some ''http://example/cover.png''\<rparr>,
              \<lparr>link_type = Some ''audio/mpeg'', link_href = Some ''X''\<rparr>]\<rparr>"

text \<open>
  A feed with a cover image and two episodes, in a world where no connection can be
  made, and in a world where every download is answered with status 404.
\<close>

definition ep2 :: entry where
  "ep2 =
     \<lparr>entry_title = Some ''Ep 2'', entry_link = None, entry_description = None,
      entry_published_parsed = Some second_of_january,
      entry_links =
        Some [\<lparr>link_type = Some ''audio/mpeg'', link_href = Some ''http://example/ep2.mp3''\<rparr>]\<rparr>"

definition two_episodes :: parsed_feed where
  "two_episodes = \<lparr>bozo = False, feed = my_show_header, entries = [ep1, ep2]\<rparr>"


definition offline_world :: world where
  "offline_world =
     \<lparr>feedparser_parse = (\<lambda>u. two_episodes), requests_get = (\<lambda>u. Request_failed),
      time_strftime = strftime_table\<rparr>"



section \<open>Properties of the normaliser\<close>

lemma allowed_underscore: "allowed CHR ''_''"
  by (simp add: allowed_def)

lemma ascii_normalise_map:
  "ascii_normalise s = map (\<lambda>c. if allowed c then c else CHR ''_'') s"
  by (induction s) (simp_all add: ascii_normalise_def)

lemma ascii_normalise_allowed: "list_all allowed (ascii_normalise s)"
  by (induction s) (simp_all add: ascii_normalise_map allowed_underscore)

lemma ascii_normalise_fixed_iff: "ascii_normalise s = s \<longleftrightarrow> list_all allowed s"
  by (induction s) (auto simp: ascii_normalise_map allowed_underscore)

text \<open>
  Claim C6, as stated, fails at the empty string: the normaliser returns it unchanged,
  and the empty string does not match a pattern that ends in \<^verbatim>\<open>+\<close>.
\<close>

theorem normalise_empty_counterexample:
  "\<not> (ascii_normalise [] = [] \<longleftrightarrow> matches_allowed_plus [])"
  by (simp add: ascii_normalise_def matches_allowed_plus_def)

text \<open>
  Claim C6, amended: the normaliser is a total function of its string (for every input
  there is exactly one output), and it leaves a string unchanged if and only if every
  character of the string is in the allowed set, the empty string included.
\<close>

theorem normalise_unchanged_iff:
  "(\<exists>!r. ascii_normalise s = r) \<and> (ascii_normalise s = s \<longleftrightarrow> list_all allowed s)"
  by (simp add: ascii_normalise_fixed_iff)

text \<open>
  Claim C10: normalising twice gives what normalising once gives, and every character
  of the output is in the allowed set (letters, digits, underscore, dot, slash, hyphen
  and the backslash, which the pattern of the source lists and section 4.1 of the spec
  names as allowed).
\<close>

theorem normalise_idempotent:
  "ascii_normalise (ascii_normalise s) = ascii_normalise s \<and>
   list_all allowed (ascii_normalise s)"
  using ascii_normalise_allowed [of s] by (simp add: ascii_normalise_fixed_iff)

section \<open>Properties of the string functions\<close>

lemma starts_with_iff: "starts_with p s \<longleftrightarrow> (\<exists>b. s = p @ b)"
  by (induction p s rule: starts_with.induct) auto

text \<open>\<open>str_contains\<close> is the substring test.\<close>

lemma str_contains_iff: "str_contains sub s \<longleftrightarrow> (\<exists>a b. s = a @ sub @ b)"
proof (induction s)
  case Nil
  then show ?case by auto
next
  case (Cons c cs)
  show ?case
  proof
    assume "str_contains sub (c # cs)"
    then consider "starts_with sub (c # cs)" | "str_contains sub cs" by auto
    then show "\<exists>a b. c # cs = a @ sub @ b"
    proof cases
      case 1
      then obtain b where "c # cs = sub @ b" by (auto simp: starts_with_iff)
      then have "c # cs = [] @ sub @ b" by simp
      then show ?thesis by blast
    next
      case 2
      then obtain a b where "cs = a @ sub @ b" using Cons.IH by auto
      then have "c # cs = (c # a) @ sub @ b" by simp
      then show ?thesis by blast
    qed
  next
    assume "\<exists>a b. c # cs = a @ sub @ b"
    then obtain a b where ab: "c # cs = a @ sub @ b" by blast
    show "str_contains sub (c # cs)"
    proof (cases a)
      case Nil
      with ab have "starts_with sub (c # cs)" by (auto simp: starts_with_iff)
      then show ?thesis by simp
    next
      case (Cons x xs)
      with ab have "cs = xs @ sub @ b" by simp
      then have "str_contains sub cs" using Cons.IH by blast
      then show ?thesis by simp
    qed
  qed
qed

lemma split_on_nonempty: "split_on sep s \<noteq> []"
  by (induction s) (auto split: list.splits)

text \<open>Splitting at the spaces and joining with underscores replaces every space.\<close>

lemma join_split_spaces:
  "join_with ''_'' (split_on CHR '' '' s) = map (\<lambda>c. if c = CHR '' '' then CHR ''_'' else c) s"
proof (induction s)
  case Nil
  then show ?case by simp
next
  case (Cons c cs)
  obtain w ws where w: "split_on CHR '' '' cs = w # ws"
    using split_on_nonempty [of "CHR '' ''" cs] by (cases "split_on CHR '' '' cs") auto
  show ?case
  proof (cases "c = CHR '' ''")
    case True
    then show ?thesis using Cons w by simp
  next
    case False
    then show ?thesis using Cons w by (cases ws) auto
  qed
qed

section \<open>Properties of the OPML feed extractor\<close>

lemma append_feed_urls_eq:
  "append_feed_urls as feeds =
     feeds @ concat (map (\<lambda>a. case map_of a ''xmlUrl'' of
                               None \<Rightarrow> [] | Some u \<Rightarrow> if u \<noteq> [] then [u] else []) as)"
  by (induction as arbitrary: feeds) (auto split: option.splits)

lemma findall_rss_eq:
  "findall_rss xml_root =
     filter (\<lambda>z. map_of (attrib z) ''type'' = Some ''rss'')
       (concat (map children
          (filter (\<lambda>y. tag y = ''outline'')
             (concat (map children (children xml_root))))))"
  by (simp add: findall_rss_def select_attribute_def select_star_def select_child_def
      filter_concat comp_def)

text \<open>
  What the extractor returns, for every document: the non-empty \<^verbatim>\<open>xmlUrl\<close>
  attributes, in document order, of the elements with \<^verbatim>\<open>type="rss"\<close> that are
  children of an \<^verbatim>\<open>outline\<close> element which is a child of a child of the root. An
  element at any other depth is not looked at.
\<close>

theorem parse_opml_selection:
  "parse_opml xml_root feeds =
     feeds @
     concat (map (\<lambda>z. case map_of (attrib z) ''xmlUrl'' of
                         None \<Rightarrow> []
                       | Some u \<Rightarrow> if u \<noteq> [] then [u] else [])
       (filter (\<lambda>z. map_of (attrib z) ''type'' = Some ''rss'')
          (concat (map children
             (filter (\<lambda>y. tag y = ''outline'')
                (concat (map children (children xml_root))))))))"
  by (simp add: parse_opml_def append_feed_urls_eq findall_rss_eq comp_def)

text \<open>
  Claim C2 at the document whose \<^verbatim>\<open>body\<close> holds the feed's \<^verbatim>\<open>outline\<close> directly
  (\<^verbatim>\<open>type="rss"\<close>, a non-empty \<^verbatim>\<open>xmlUrl\<close>): the extractor returns no URL. The comment
  of the source reads "Get all RSS feeds with a 'xmlUrl' attribute"; the path
  \<^verbatim>\<open>*/outline/*[@type='rss']\<close> reaches the elements two levels below \<^verbatim>\<open>body\<close> only.
\<close>

theorem parse_opml_flat_document:
  "parse_opml flat_opml [] = []"
  by (simp add: parse_opml_def findall_rss_def select_attribute_def select_star_def
      select_child_def flat_opml_def feed_outline_def)

text \<open>
  Claim C1 at that document: the feed list is empty, no feed is fetched, and the run
  ends with the destination directory as empty as it was. The three files of the claim
  are not produced.
\<close>

theorem run_flat_document_writes_nothing:
  "run example_config example_world flat_opml empty_dest = Inr empty_dest
   \<and> files empty_dest = []"
  by code_simp

text \<open>
  With the same \<^verbatim>\<open>outline\<close> inside a group the run produces exactly the three files
  of the scenario: the feed record with \<^verbatim>\<open>episode_count\<close> 1, the episode record and
  the audio file with the bytes of the response.
\<close>

theorem run_grouped_document:
  "run example_config example_world grouped_opml empty_dest =
     Inr \<lparr>files =
            [(''dest/My_Show/My_Show.json'',
              Json_text
                [(''title'', PStr ''My Show''), (''link'', PNone), (''description'', PNone),
                 (''published'', PNone), (''image'', PNone), (''categories'', PNone),
                 (''episode_count'', PInt 1)]),
             (''dest/My_Show/episodes/2024-01-02_Ep_1.json'',
              Json_text
                [(''title'', PStr ''Ep 1''), (''link'', PStr ''http://example/ep1.mp3''),
                 (''description'', PNone), (''published_parsed'', PStr ''2024-01-02'')]),
             (''dest/My_Show/episodes/2024-01-02_Ep_1.mp3'', Bytes [1, 2, 3])],
          dirs = [''dest'', ''dest/My_Show'', ''dest/My_Show/episodes''],
          requests = [''http://example/ep1.mp3'']\<rparr>"
  by code_simp

section \<open>Properties of the episode metadata\<close>

lemma episode_fields_copied:
  "copy_fields (entry_get e) EPISODE_FIELDS [] =
     [(''title'', opt_str (entry_title e)),
      (''link'', opt_str (entry_link e)),
      (''description'', opt_str (entry_description e)),
      (''published_parsed'',
         case entry_published_parsed e of None \<Rightarrow> PNone | Some t \<Rightarrow> PTime t),
      (''links'', case entry_links e of None \<Rightarrow> PNone | Some ls \<Rightarrow> PLinks ls)]"
  by (simp add: EPISODE_FIELDS_def dict_set_def entry_get_def)

text \<open>
  What the loop over the links leaves when it ends without a raise, and that it does so
  when every link has a type and an href.
\<close>

lemma scan_links_result:
  "scan_links ls d = Inr d' \<Longrightarrow>
     (case find audio_link ls of
        None \<Rightarrow> d' = d
      | Some l \<Rightarrow> \<exists>h. link_href l = Some h \<and> d' = dict_set d ''link'' (PStr h))"
  by (induction ls) (auto simp: audio_link_def split: option.splits if_splits)

lemma scan_links_typed:
  "list_all typed_link ls \<Longrightarrow> \<exists>d'. scan_links ls d = Inr d'"
  by (induction ls) (auto simp: typed_link_def split: option.splits)

lemma opt_str_not_time [simp]: "opt_str x \<noteq> PTime t" "opt_str x \<noteq> PLinks ls"
  by (cases x; simp add: opt_str_def)+

lemma format_published_parsed_fields:
  "format_published_parsed cfg w (copy_fields (entry_get e) EPISODE_FIELDS []) = Inr m \<Longrightarrow>
   \<exists>pub. m = [(''title'', opt_str (entry_title e)),
              (''link'', opt_str (entry_link e)),
              (''description'', opt_str (entry_description e)),
              (''published_parsed'', pub),
              (''links'', case entry_links e of None \<Rightarrow> PNone | Some ls \<Rightarrow> PLinks ls)]
         \<and> (case entry_published_parsed e of
               None \<Rightarrow> pub = PNone
             | Some t \<Rightarrow> time_strftime w (time_format cfg) t = Inr (format_published pub)
                         \<and> pub = PStr (format_published pub))"
  unfolding episode_fields_copied format_published_parsed_def
  by (cases "entry_published_parsed e")
     (auto simp: dict_get_def dict_set_def format_published_def split: sum.splits)

text \<open>
  The dictionary of an episode whose projection does not raise, written out.
\<close>

lemma project_episode_Inr:
  assumes "project_episode cfg w e = Inr md"
  shows "\<exists>pub. md =
     [(''title'', opt_str (entry_title e)),
      (''link'',
         case entry_links e of
           None \<Rightarrow> opt_str (entry_link e)
         | Some ls \<Rightarrow>
             (case find audio_link ls of
                None \<Rightarrow> opt_str (entry_link e)
              | Some l \<Rightarrow> opt_str (link_href l))),
      (''description'', opt_str (entry_description e)),
      (''published_parsed'', pub)]
     @ (case entry_links e of
          None \<Rightarrow> [(''links'', PNone)]
        | Some ls \<Rightarrow> if ls = [] then [(''links'', PLinks [])] else [])"
proof -
  from assms obtain m where
    m: "format_published_parsed cfg w (copy_fields (entry_get e) EPISODE_FIELDS []) = Inr m"
    and r: "resolve_links m = Inr md"
    by (auto simp: project_episode_def split: sum.splits)
  from format_published_parsed_fields [OF m] obtain pub where
    mm: "m = [(''title'', opt_str (entry_title e)),
              (''link'', opt_str (entry_link e)),
              (''description'', opt_str (entry_description e)),
              (''published_parsed'', pub),
              (''links'', case entry_links e of None \<Rightarrow> PNone | Some ls \<Rightarrow> PLinks ls)]"
    by blast
  show ?thesis
  proof (cases "entry_links e")
    case None
    with r mm show ?thesis by (auto simp: resolve_links_def dict_get_def)
  next
    case (Some ls)
    show ?thesis
    proof (cases "ls = []")
      case True
      with r mm Some show ?thesis by (auto simp: resolve_links_def dict_get_def)
    next
      case False
      with r mm Some obtain m' where s: "scan_links ls m = Inr m'" and p: "md = dict_pop m' ''links''"
        by (auto simp: resolve_links_def dict_get_def split: sum.splits)
      from scan_links_result [OF s] show ?thesis
        using p mm Some False
        by (cases "find audio_link ls")
           (auto simp: dict_pop_def dict_set_def opt_str_def)
    qed
  qed
qed

lemma project_episode_title:
  "project_episode cfg w e = Inr md \<Longrightarrow> dict_get md ''title'' = opt_str (entry_title e)"
  by (drule project_episode_Inr) (auto simp: dict_get_def)

lemma project_episode_succeeds:
  assumes "published_formats cfg w e"
    and "case entry_links e of None \<Rightarrow> True | Some ls \<Rightarrow> list_all typed_link ls"
  shows "\<exists>md. project_episode cfg w e = Inr md"
proof -
  from assms(1) obtain m where
    m: "format_published_parsed cfg w (copy_fields (entry_get e) EPISODE_FIELDS []) = Inr m"
    unfolding episode_fields_copied format_published_parsed_def published_formats_def
    by (cases "entry_published_parsed e") (auto simp: dict_get_def split: sum.splits)
  from format_published_parsed_fields [OF m] obtain pub where
    mm: "m = [(''title'', opt_str (entry_title e)),
              (''link'', opt_str (entry_link e)),
              (''description'', opt_str (entry_description e)),
              (''published_parsed'', pub),
              (''links'', case entry_links e of None \<Rightarrow> PNone | Some ls \<Rightarrow> PLinks ls)]"
    by blast
  have "\<exists>md. resolve_links m = Inr md"
  proof (cases "entry_links e")
    case None
    with mm show ?thesis by (simp add: resolve_links_def dict_get_def)
  next
    case (Some ls)
    with assms(2) have "list_all typed_link ls" by simp
    from scan_links_typed [OF this, of m] obtain m' where "scan_links ls m = Inr m'" by blast
    with mm Some show ?thesis by (simp add: resolve_links_def dict_get_def)
  qed
  with m show ?thesis by (simp add: project_episode_def)
qed

lemma project_episode_audio_href:
  assumes "project_episode cfg w e = Inr md"
    and "entry_links e = Some ls" and "ls \<noteq> []" and "find audio_link ls = Some l"
  shows "\<exists>h. link_href l = Some h"
proof -
  from assms(1) obtain m where
    m: "format_published_parsed cfg w (copy_fields (entry_get e) EPISODE_FIELDS []) = Inr m"
    and r: "resolve_links m = Inr md"
    by (auto simp: project_episode_def split: sum.splits)
  from format_published_parsed_fields [OF m] assms(2) have "dict_get m ''links'' = PLinks ls"
    by (auto simp: dict_get_def)
  with r assms(3) obtain m' where "scan_links ls m = Inr m'"
    by (auto simp: resolve_links_def split: sum.splits)
  from scan_links_result [OF this] assms(4) show ?thesis by auto
qed

text \<open>
  Claim C7, as stated, fails at an entry whose only enclosure has no type: the collection
  is not empty and no type in it contains \<^verbatim>\<open>audio\<close>, so the claim keeps the
  entry-level link; the code raises \<^verbatim>\<open>KeyError\<close> at \<^verbatim>\<open>link['type']\<close> and
  there is no projected link.
\<close>

theorem link_resolution_counterexample:
  "entry_links ep1_untyped
     = Some [\<lparr>link_type = None, link_href = Some ''http://example/ep1.mp3''\<rparr>]
   \<and> entry_link ep1_untyped = Some ''http://example/page.html''
   \<and> project_episode example_config example_world ep1_untyped = Inl KeyError"
  by code_simp

text \<open>
  Claim C7, amended: for every feed entry whose links collection is non-empty and whose
  projection does not raise, the link of the episode record is the href of the first
  link whose type contains \<^verbatim>\<open>audio\<close> (in place of the entry-level link), and the
  entry-level link (or \<^verbatim>\<open>None\<close>) when no link type contains \<^verbatim>\<open>audio\<close>; the
  collection itself is not in the record. The projection does not raise when every
  link has a type and an href and the publication time can be formatted.
\<close>

theorem link_resolution:
  "(entry_links e = Some ls \<and> ls \<noteq> [] \<and> project_episode cfg w e = Inr md \<longrightarrow>
      (case find audio_link ls of
         None \<Rightarrow> dict_get md ''link'' = opt_str (entry_link e)
       | Some l \<Rightarrow> \<exists>h. link_href l = Some h \<and> dict_get md ''link'' = PStr h)
      \<and> map_of md ''links'' = None)
   \<and> (entry_links e = Some ls \<and> list_all typed_link ls \<and> published_formats cfg w e \<longrightarrow>
      (\<exists>md. project_episode cfg w e = Inr md))"
proof (intro conjI impI)
  assume h: "entry_links e = Some ls \<and> ls \<noteq> [] \<and> project_episode cfg w e = Inr md"
  then have p: "project_episode cfg w e = Inr md" and l: "entry_links e = Some ls"
    and n: "ls \<noteq> []"
    by simp_all
  from project_episode_Inr [OF p] l n
  have lk: "dict_get md ''link'' =
      (case find audio_link ls of
         None \<Rightarrow> opt_str (entry_link e)
       | Some l \<Rightarrow> opt_str (link_href l))"
    and nl: "map_of md ''links'' = None"
    by (auto simp: dict_get_def)
  show "map_of md ''links'' = None" by (rule nl)
  show "case find audio_link ls of
         None \<Rightarrow> dict_get md ''link'' = opt_str (entry_link e)
       | Some l \<Rightarrow> \<exists>h. link_href l = Some h \<and> dict_get md ''link'' = PStr h"
  proof (cases "find audio_link ls")
    case None
    with lk show ?thesis by simp
  next
    case (Some a)
    from project_episode_audio_href [OF p l n Some] obtain h where "link_href a = Some h"
      by blast
    with lk Some show ?thesis by (simp add: opt_str_def)
  qed
next
  assume "entry_links e = Some ls \<and> list_all typed_link ls \<and> published_formats cfg w e"
  then show "\<exists>md. project_episode cfg w e = Inr md"
    using project_episode_succeeds [of cfg w e] by simp
qed

text \<open>
  The example of the spec: an image enclosure first, then an audio enclosure with
  href \<^verbatim>\<open>X\<close>, on an entry that has a link of its own.
\<close>

theorem link_resolution_witness:
  "project_episode example_config example_world ep_two_enclosures
     = Inr [(''title'', PStr ''Ep 3''), (''link'', PStr ''X''), (''description'', PNone),
            (''published_parsed'', PStr ''2024-01-02'')]
   \<and> find audio_link
         [\<lparr>link_type = Some ''image/png'', link_href = Some ''http://example/cover.png''\<rparr>,
          \<lparr>link_type = Some ''audio/mpeg'', link_href = Some ''X''\<rparr>]
       = Some \<lparr>link_type = Some ''audio/mpeg'', link_href = Some ''X''\<rparr>
   \<and> (\<exists>h. link_href \<lparr>link_type = Some ''audio/mpeg'', link_href = Some ''X''\<rparr> = Some h
          \<and> dict_get [(''title'', PStr ''Ep 3''), (''link'', PStr ''X''),
                       (''description'', PNone), (''published_parsed'', PStr ''2024-01-02'')]
               ''link'' = PStr h)
   \<and> (\<exists>md. project_episode example_config example_world ep_two_enclosures = Inr md)"
proof -
  let ?ls = "[\<lparr>link_type = Some ''image/png'', link_href = Some ''http://example/cover.png''\<rparr>,
              \<lparr>link_type = Some ''audio/mpeg'', link_href = Some ''X''\<rparr>]"
  let ?md = "[(''title'', PStr ''Ep 3''), (''link'', PStr ''X''), (''description'', PNone),
              (''published_parsed'', PStr ''2024-01-02'')]"
  note T = link_resolution [of ep_two_enclosures ?ls example_config example_world ?md]
  have l: "entry_links ep_two_enclosures = Some ?ls"
    by (simp add: ep_two_enclosures_def)
  have n: "?ls \<noteq> []" by simp
  have p: "project_episode example_config example_world ep_two_enclosures = Inr ?md"
    by code_simp
  have f: "find audio_link ?ls = Some \<lparr>link_type = Some ''audio/mpeg'', link_href = Some ''X''\<rparr>"
    by (simp add: audio_link_def)
  have t: "list_all typed_link ?ls"
    by (simp add: typed_link_def)
  have d: "published_formats example_config example_world ep_two_enclosures"
    by code_simp
  from T [THEN conjunct1, THEN mp, OF conjI [OF l conjI [OF n p]]] f
  have c1: "\<exists>h. link_href \<lparr>link_type = Some ''audio/mpeg'', link_href = Some ''X''\<rparr> = Some h
          \<and> dict_get ?md ''link'' = PStr h"
    by simp
  from T [THEN conjunct2, THEN mp, OF conjI [OF l conjI [OF t d]]]
  have c2: "\<exists>md. project_episode example_config example_world ep_two_enclosures = Inr md" .
  from p f c1 c2 show ?thesis by blast
qed

section \<open>Properties of the archival of one episode\<close>

text \<open>
  The call for an episode whose projection returned and whose title is there, and the
  two ways it ends before any path is derived.
\<close>

lemma process_feed_episode_projected:
  assumes "project_episode cfg w e = Inr md" and "entry_title e = Some title"
  shows "process_feed_episode cfg w e directory st =
     (if os_path_exists st (episode_filename directory md (episode_title_of title) ''.json'')
         \<and> os_path_exists st (episode_filename directory md (episode_title_of title) ''.mp3'')
      then Inr st
      else (case open_write (episode_filename directory md (episode_title_of title) ''.json'')
                  (Json_text md) st of
              Inl x \<Rightarrow> Inl x
            | Inr st1 \<Rightarrow>
                (case dict_get md ''link'' of
                   PStr url \<Rightarrow>
                     if url \<noteq> []
                     then save_response (requests_get w url)
                            (episode_filename directory md (episode_title_of title) ''.mp3'')
                            (st1\<lparr>requests := requests st1 @ [url]\<rparr>)
                     else Inl (UnboundLocalError, st1)
                 | _ \<Rightarrow> Inl (UnboundLocalError, st1))))"
  using assms project_episode_title [OF assms(1)]
  by (simp add: process_feed_episode_def opt_str_def Let_def)


lemma process_feed_episode_no_title:
  "project_episode cfg w e = Inr md \<Longrightarrow> entry_title e = None \<Longrightarrow>
   process_feed_episode cfg w e directory st = Inl (AttributeError, st)"
  using project_episode_title [of cfg w e md]
  by (simp add: process_feed_episode_def opt_str_def)




text \<open>
  An episode without a resolved link, in general: the record is written and then the
  call raises.
\<close>

lemma no_link_raises:
  assumes "project_episode cfg w e = Inr md" and "entry_title e = Some title"
    and "\<not> (os_path_exists st (episode_filename directory md (episode_title_of title) ''.json'')
         \<and> os_path_exists st (episode_filename directory md (episode_title_of title) ''.mp3''))"
    and "open_error st (episode_filename directory md (episode_title_of title) ''.json'') = None"
    and "\<not> truthy (dict_get md ''link'')"
  shows "process_feed_episode cfg w e directory st =
     Inl (UnboundLocalError,
          st\<lparr>files := AList.update
             (episode_filename directory md (episode_title_of title) ''.json'')
             (Json_text md) (files st)\<rparr>)"
  using assms(3,4,5)
  by (cases "dict_get md ''link''")
     (simp_all add: process_feed_episode_projected [OF assms(1,2)] open_write_def)

text \<open>
  Claim C3 at an episode with neither a link nor an enclosure, in a feed directory
  without files: the metadata record is written, no request is made and no audio file
  appears, but the call does not return: it raises \<^verbatim>\<open>UnboundLocalError\<close>, and the
  episode after it in the feed is never processed.
\<close>

theorem episode_without_link_raises:
  "process_feed_episode example_config example_world ep_without_link ''dest/My_Show''
     feed_dirs_only =
     Inl (UnboundLocalError,
          \<lparr>files =
             [(''dest/My_Show/episodes/2024-01-02_Ep_2.json'',
               Json_text
                 [(''title'', PStr ''Ep 2''), (''link'', PNone), (''description'', PNone),
                  (''published_parsed'', PStr ''2024-01-02''), (''links'', PNone)])],
           dirs = [''dest'', ''dest/My_Show'', ''dest/My_Show/episodes''],
           requests = []\<rparr>)
   \<and> process_episodes example_config example_world [ep_without_link, ep1] ''dest/My_Show''
       feed_dirs_only =
     process_feed_episode example_config example_world ep_without_link ''dest/My_Show''
       feed_dirs_only"
  by code_simp

text \<open>
  The two paths of an episode differ (their lengths do), so that writing the audio file
  leaves the metadata record as it was written.
\<close>

lemma ascii_normalise_length: "length (ascii_normalise s) = length s"
  by (simp add: ascii_normalise_map)

lemma starts_with_sep_append:
  "starts_with ''/'' (p @ CHR ''_'' # r1) = starts_with ''/'' (p @ CHR ''_'' # r2)"
  by (cases p) simp_all

lemma path_join_length_ext:
  "length (path_join a (p @ CHR ''_'' # t @ ''.json''))
   = Suc (length (path_join a (p @ CHR ''_'' # t @ ''.mp3'')))"
  using starts_with_sep_append [of p "t @ ''.json''" "t @ ''.mp3''"]
  by (simp add: path_join_def)

lemma meta_audio_distinct:
  "episode_filename directory md t ''.json'' \<noteq> episode_filename directory md t ''.mp3''"
proof
  assume "episode_filename directory md t ''.json'' = episode_filename directory md t ''.mp3''"
  then have "length (episode_filename directory md t ''.json'')
             = length (episode_filename directory md t ''.mp3'')"
    by simp
  then show False
    by (simp add: episode_filename_def ascii_normalise_length path_join_length_ext)
qed

lemma write_chunk_other:
  "p \<noteq> filename \<Longrightarrow> map_of (files (write_chunk filename st chunk)) p = map_of (files st) p"
  by (simp add: write_chunk_def update_conv' split: option.splits content.splits)

lemma write_chunks_other:
  "p \<noteq> filename \<Longrightarrow>
   map_of (files (foldl (write_chunk filename) st chunks)) p = map_of (files st) p"
  by (induction chunks arbitrary: st) (simp_all add: write_chunk_other)

lemma save_response_other:
  "p \<noteq> filename \<Longrightarrow>
   map_of (files (result_state (save_response r filename st))) p = map_of (files st) p"
  by (cases r)
     (simp_all add: save_response_def result_state_def open_write_def write_chunks_other
        update_conv' split: option.splits)

text \<open>
  Whenever the episode is not skipped and its metadata file can be opened, the file
  holds the dictionary of the episode when the call ends, however it ends.
\<close>

lemma record_written:
  assumes "project_episode cfg w e = Inr md" and "entry_title e = Some title"
    and "\<not> (os_path_exists st (episode_filename directory md (episode_title_of title) ''.json'')
         \<and> os_path_exists st (episode_filename directory md (episode_title_of title) ''.mp3''))"
    and "open_error st (episode_filename directory md (episode_title_of title) ''.json'') = None"
  shows "map_of (files (result_state (process_feed_episode cfg w e directory st)))
           (episode_filename directory md (episode_title_of title) ''.json'')
         = Some (Json_text md)"
proof -
  let ?meta = "episode_filename directory md (episode_title_of title) ''.json''"
  let ?audio = "episode_filename directory md (episode_title_of title) ''.mp3''"
  let ?st1 = "st\<lparr>files := AList.update ?meta (Json_text md) (files st)\<rparr>"
  have w: "open_write ?meta (Json_text md) st = Inr ?st1"
    using assms(4) by (simp add: open_write_def)
  have m1: "map_of (files ?st1) ?meta = Some (Json_text md)"
    by (simp add: update_conv')
  have sr: "map_of (files (result_state (save_response r ?audio (?st1\<lparr>requests := rs\<rparr>)))) ?meta
            = Some (Json_text md)" for r rs
    using save_response_other [of ?meta ?audio r "?st1\<lparr>requests := rs\<rparr>"] meta_audio_distinct m1
    by simp
  have nb: "(os_path_exists st ?meta \<and> os_path_exists st ?audio) = False"
    using assms(3) by simp
  have pfe: "process_feed_episode cfg w e directory st =
     (case dict_get md ''link'' of
        PStr url \<Rightarrow>
          if url \<noteq> []
          then save_response (requests_get w url) ?audio
                 (?st1\<lparr>requests := requests ?st1 @ [url]\<rparr>)
          else Inl (UnboundLocalError, ?st1)
      | _ \<Rightarrow> Inl (UnboundLocalError, ?st1))"
    by (simp only: process_feed_episode_projected [OF assms(1,2)] nb if_False w sum.case)
  have "process_feed_episode cfg w e directory st = Inl (UnboundLocalError, ?st1)
        \<or> (\<exists>r rs. process_feed_episode cfg w e directory st
               = save_response r ?audio (?st1\<lparr>requests := rs\<rparr>))"
    unfolding pfe by (cases "dict_get md ''link''") auto
  then show ?thesis
  proof
    assume "process_feed_episode cfg w e directory st = Inl (UnboundLocalError, ?st1)"
    then have "result_state (process_feed_episode cfg w e directory st) = ?st1"
      by (simp add: result_state_def)
    then show ?thesis using m1 by simp
  next
    assume "\<exists>r rs. process_feed_episode cfg w e directory st
               = save_response r ?audio (?st1\<lparr>requests := rs\<rparr>)"
    then obtain r rs where "process_feed_episode cfg w e directory st
               = save_response r ?audio (?st1\<lparr>requests := rs\<rparr>)" by blast
    then show ?thesis using sr [of r rs] by simp
  qed
qed

text \<open>
  Claim C9, as stated, fails at the episode of the end-to-end scenario: the record
  written for it has the key \<^verbatim>\<open>published_parsed\<close>, and no key \<^verbatim>\<open>published\<close>.
\<close>

theorem episode_record_keys_counterexample:
  "written_keys
     (result_state
        (process_feed_episode example_config example_world ep1 ''dest/My_Show'' feed_dirs_only))
     ''dest/My_Show/episodes/2024-01-02_Ep_1.json''
     = Some [''title'', ''link'', ''description'', ''published_parsed'']
   \<and> set [''title'', ''link'', ''description'', ''published_parsed'']
       \<noteq> {''title'', ''link'', ''description'', ''published''}"
proof
  show "written_keys
     (result_state
        (process_feed_episode example_config example_world ep1 ''dest/My_Show'' feed_dirs_only))
     ''dest/My_Show/episodes/2024-01-02_Ep_1.json''
     = Some [''title'', ''link'', ''description'', ''published_parsed'']"
    by code_simp
next
  show "set [''title'', ''link'', ''description'', ''published_parsed'']
       \<noteq> {''title'', ''link'', ''description'', ''published''}"
  proof
    assume eq: "set [''title'', ''link'', ''description'', ''published_parsed'']
       = {''title'', ''link'', ''description'', ''published''}"
    have "''published_parsed'' \<in> set [''title'', ''link'', ''description'', ''published_parsed'']"
      by simp
    then have "''published_parsed'' \<in> {''title'', ''link'', ''description'', ''published''}"
      by (simp only: eq)
    then show False by simp
  qed
qed

text \<open>
  Claim C9, amended: every episode metadata record written for an entry with a non-empty
  \<^verbatim>\<open>links\<close> collection is a JSON object whose keys are exactly \<^verbatim>\<open>title\<close>,
  \<^verbatim>\<open>link\<close>, \<^verbatim>\<open>description\<close> and \<^verbatim>\<open>published_parsed\<close>. The record is written
  exactly when the projection returns, the title is there, the two files do not both
  exist and the file can be opened.
\<close>

theorem episode_record_keys:
  assumes "project_episode cfg w e = Inr md" and "entry_title e = Some title"
    and "entry_links e = Some ls" and "ls \<noteq> []"
    and "\<not> (os_path_exists st (episode_filename directory md (episode_title_of title) ''.json'')
         \<and> os_path_exists st (episode_filename directory md (episode_title_of title) ''.mp3''))"
    and "open_error st (episode_filename directory md (episode_title_of title) ''.json'') = None"
  shows "written_keys (result_state (process_feed_episode cfg w e directory st))
           (episode_filename directory md (episode_title_of title) ''.json'')
         = Some [''title'', ''link'', ''description'', ''published_parsed'']"
proof -
  have "map fst md = [''title'', ''link'', ''description'', ''published_parsed'']"
    using project_episode_Inr [OF assms(1)] assms(3,4) by auto
  then show ?thesis
    using record_written [OF assms(1,2,5,6)]
    by (simp add: written_keys_def)
qed

theorem episode_record_keys_witness:
  "project_episode example_config offline_world ep_two_enclosures
     = Inr [(''title'', PStr ''Ep 3''), (''link'', PStr ''X''), (''description'', PNone),
            (''published_parsed'', PStr ''2024-01-02'')]
   \<and> written_keys
       (result_state
          (process_feed_episode example_config offline_world ep_two_enclosures ''dest/My_Show''
             feed_dirs_only))
       ''dest/My_Show/episodes/2024-01-02_Ep_3.json''
     = Some [''title'', ''link'', ''description'', ''published_parsed'']"
proof -
  let ?md = "[(''title'', PStr ''Ep 3''), (''link'', PStr ''X''), (''description'', PNone),
              (''published_parsed'', PStr ''2024-01-02'')]"
  have p: "project_episode example_config offline_world ep_two_enclosures = Inr ?md"
    by code_simp
  have t: "entry_title ep_two_enclosures = Some ''Ep 3''"
    by (simp add: ep_two_enclosures_def)
  have l: "entry_links ep_two_enclosures =
     Some [\<lparr>link_type = Some ''image/png'', link_href = Some ''http://example/cover.png''\<rparr>,
           \<lparr>link_type = Some ''audio/mpeg'', link_href = Some ''X''\<rparr>]"
    by (simp add: ep_two_enclosures_def)
  have n: "[\<lparr>link_type = Some ''image/png'', link_href = Some ''http://example/cover.png''\<rparr>,
           \<lparr>link_type = Some ''audio/mpeg'', link_href = Some ''X''\<rparr>] \<noteq> []"
    by simp
  have m: "episode_filename ''dest/My_Show'' ?md (episode_title_of ''Ep 3'') ''.json''
           = ''dest/My_Show/episodes/2024-01-02_Ep_3.json''"
    by code_simp
  have x: "\<not> (os_path_exists feed_dirs_only
           (episode_filename ''dest/My_Show'' ?md (episode_title_of ''Ep 3'') ''.json'')
         \<and> os_path_exists feed_dirs_only
           (episode_filename ''dest/My_Show'' ?md (episode_title_of ''Ep 3'') ''.mp3''))"
    by code_simp
  have o: "open_error feed_dirs_only
           (episode_filename ''dest/My_Show'' ?md (episode_title_of ''Ep 3'') ''.json'') = None"
    by code_simp
  have "written_keys
       (result_state
          (process_feed_episode example_config offline_world ep_two_enclosures ''dest/My_Show''
             feed_dirs_only))
       ''dest/My_Show/episodes/2024-01-02_Ep_3.json''
     = Some [''title'', ''link'', ''description'', ''published_parsed'']"
    using episode_record_keys [OF p t l n x o] by (simp only: m)
  with p show ?thesis by simp
qed

section \<open>Failed downloads\<close>







section \<open>Properties of the loop over the feeds\<close>

text \<open>
  Claim C8: a feed that the parser reports as malformed changes nothing (no file, no
  directory, no request), and the loop goes on with the feeds after it: the next feed
  in the sequence is processed from the unchanged state, and the rest of the list after
  that.
\<close>

theorem bozo_feed_skipped:
  assumes "bozo (feedparser_parse w feed_url)"
  shows "process_feed cfg w feed_url st = Inr st
         \<and> get_feeds cfg w (feed_url # feeds) st = get_feeds cfg w feeds st
         \<and> get_feeds cfg w (feed_url # next_feed # feeds) st
           = (case process_feed cfg w next_feed st of
                Inl x \<Rightarrow> Inl x
              | Inr st' \<Rightarrow> get_feeds cfg w feeds st')"
  using assms by (simp add: process_feed_def)

text \<open>
  A malformed feed followed by the feed of the end-to-end scenario: the run produces
  the three files of the second feed.
\<close>

theorem bozo_feed_skipped_witness:
  "bozo (feedparser_parse example_world ''http://example/bad.xml'')
   \<and> process_feed example_config example_world ''http://example/bad.xml'' empty_dest
       = Inr empty_dest
   \<and> get_feeds example_config example_world
         [''http://example/bad.xml'', ''http://example/feed.xml''] empty_dest
       = Inr \<lparr>files =
            [(''dest/My_Show/My_Show.json'',
              Json_text
                [(''title'', PStr ''My Show''), (''link'', PNone), (''description'', PNone),
                 (''published'', PNone), (''image'', PNone), (''categories'', PNone),
                 (''episode_count'', PInt 1)]),
             (''dest/My_Show/episodes/2024-01-02_Ep_1.json'',
              Json_text
                [(''title'', PStr ''Ep 1''), (''link'', PStr ''http://example/ep1.mp3''),
                 (''description'', PNone), (''published_parsed'', PStr ''2024-01-02'')]),
             (''dest/My_Show/episodes/2024-01-02_Ep_1.mp3'', Bytes [1, 2, 3])],
          dirs = [''dest'', ''dest/My_Show'', ''dest/My_Show/episodes''],
          requests = [''http://example/ep1.mp3'']\<rparr>"
proof -
  let ?final = "\<lparr>files =
            [(''dest/My_Show/My_Show.json'',
              Json_text
                [(''title'', PStr ''My Show''), (''link'', PNone), (''description'', PNone),
                 (''published'', PNone), (''image'', PNone), (''categories'', PNone),
                 (''episode_count'', PInt 1)]),
             (''dest/My_Show/episodes/2024-01-02_Ep_1.json'',
              Json_text
                [(''title'', PStr ''Ep 1''), (''link'', PStr ''http://example/ep1.mp3''),
                 (''description'', PNone), (''published_parsed'', PStr ''2024-01-02'')]),
             (''dest/My_Show/episodes/2024-01-02_Ep_1.mp3'', Bytes [1, 2, 3])],
          dirs = [''dest'', ''dest/My_Show'', ''dest/My_Show/episodes''],
          requests = [''http://example/ep1.mp3'']\<rparr>"
  have b: "bozo (feedparser_parse example_world ''http://example/bad.xml'')"
    by (simp add: example_world_def malformed_feed_def)
  note T = bozo_feed_skipped
    [OF b, of example_config empty_dest "[]" "''http://example/feed.xml''"]
  have g: "process_feed example_config example_world ''http://example/feed.xml'' empty_dest
           = Inr ?final"
    by code_simp
  have "get_feeds example_config example_world
         [''http://example/bad.xml'', ''http://example/feed.xml''] empty_dest
        = (case process_feed example_config example_world ''http://example/feed.xml'' empty_dest of
                Inl x \<Rightarrow> Inl x
              | Inr st' \<Rightarrow> get_feeds example_config example_world [] st')"
    using T by blast
  also have "\<dots> = Inr ?final"
    by (simp only: g sum.case get_feeds.simps)
  finally show ?thesis
    using b T by simp
qed

end
